theory Spec2Isabelle
  imports Complex_Main "HOL-Library.Word"
begin

unbundle bit_operations_syntax

section \<open>An SNTP client over a caller-supplied transport (defaultHandler.go)\<close>

text \<open>
  The source holds two parts: \<open>MakeDefaultHandler\<close>, which builds a UDP transport
  function, and the query engine (\<open>Query\<close>, \<open>QueryWithOptions\<close>, \<open>TimeV\<close>,
  \<open>Time\<close>, \<open>getTime\<close>), which drives one request/reply exchange through a transport
  function \<open>rawFunc\<close>. Go functions return tuples such as \<open>(*msg, ntpTime, error)\<close>;
  the model keeps the tuple, with \<open>None\<close> for a nil pointer or a nil error, so that
  what a caller sees next to an error is part of the model.
\<close>

subsection \<open>Basic types\<close>

type_synonym byte = "8 word"

text \<open>\<open>ntpTime\<close> is a \<open>uint64\<close>: seconds since 1900 in the high half, fraction below.\<close>

type_synonym ntpTime = "64 word"

text \<open>
  \<open>time.Time\<close> is an instant and \<open>time.Duration\<close> a signed span. Go counts both in
  whole nanoseconds; the model measures them in seconds (an instant as seconds since the
  NTP epoch), as rational numbers, which include every nanosecond count. The source under
  study only compares a duration with zero and adds a duration to an instant.
\<close>

type_synonym time = rat
type_synonym duration = rat

text \<open>
  Go error values. \<open>ErrorsNew s\<close> is \<open>errors.New(s)\<close>; \<open>EOF\<close> and
  \<open>ErrUnexpectedEOF\<close> are the two errors \<open>io.ReadFull\<close> (inside \<open>binary.Read\<close>)
  reports; \<open>NetError s\<close> stands for an error of package \<open>net\<close> (resolution, dial,
  timeout) with text \<open>s\<close>.
\<close>

datatype error = ErrorsNew string | EOF | ErrUnexpectedEOF | NetError string

text \<open>The spec's names for the errors \<open>getTime\<close> creates, with the source's texts.\<close>

definition InvalidVersion :: error where
  "InvalidVersion = ErrorsNew ''invalid protocol version requested''"

definition ClockRanBackwards :: error where
  "ClockRanBackwards = ErrorsNew ''client clock ticked backwards''"

definition UnexpectedMode :: error where
  "UnexpectedMode = ErrorsNew ''invalid mode in response''"

definition InvalidTransmitTime :: error where
  "InvalidTransmitTime = ErrorsNew ''invalid transmit time in response''"

definition OriginMismatch :: error where
  "OriginMismatch = ErrorsNew ''server response mismatch''"

definition ServerClockRanBackwards :: error where
  "ServerClockRanBackwards = ErrorsNew ''server clock ticked backwards''"

text \<open>
  A call that dereferences a nil pointer does not return: \<open>Panic\<close>. Every other call
  returns its tuple.
\<close>

datatype 'a outcome = Return 'a | Panic

subsection \<open>The packet\<close>

text \<open>
  Modelled from the spec: the declaration of \<open>msg\<close> is not in the source file. The
  spec's table gives the fields, their widths and their order on the wire; the first
  byte packs LeapIndicator (2 bits), Version (3 bits) and Mode (3 bits).
\<close>

record msg =
  LiVnMode :: byte
  Stratum :: byte
  Poll :: byte
  Precision :: byte
  RootDelay :: "32 word"
  RootDispersion :: "32 word"
  ReferenceID :: "32 word"
  ReferenceTime :: ntpTime
  OriginTime :: ntpTime
  ReceiveTime :: ntpTime
  TransmitTime :: ntpTime

text \<open>\<open>new(msg)\<close>: every field zero.\<close>

definition new_msg :: msg where
  "new_msg = \<lparr>LiVnMode = 0, Stratum = 0, Poll = 0, Precision = 0, RootDelay = 0,
     RootDispersion = 0, ReferenceID = 0, ReferenceTime = 0, OriginTime = 0,
     ReceiveTime = 0, TransmitTime = 0\<rparr>"

text \<open>
  Modelled from the spec: the mode and leap enumerations (Client = 3, Server = 4,
  NotInSync = 3) and the default protocol version (4) are constants declared outside the
  source file.
\<close>

definition client :: byte where "client = 3"
definition server :: byte where "server = 4"
definition LeapNotInSync :: byte where "LeapNotInSync = 3"
definition defaultNtpVersion :: int where "defaultNtpVersion = 4"

text \<open>
  Modelled from the spec: the header accessors are methods of \<open>msg\<close> declared outside
  the source file. Each is a read-modify-write of the one header byte that leaves the
  other two sub-fields alone.
\<close>

definition setMode :: "msg \<Rightarrow> byte \<Rightarrow> msg" where
  "setMode m md = m\<lparr>LiVnMode := (LiVnMode m AND 0xF8) OR (md AND 0x07)\<rparr>"

definition setVersion :: "msg \<Rightarrow> int \<Rightarrow> msg" where
  "setVersion m v = m\<lparr>LiVnMode := (LiVnMode m AND 0xC7) OR push_bit 3 (word_of_int v AND 0x07)\<rparr>"

definition setLeap :: "msg \<Rightarrow> byte \<Rightarrow> msg" where
  "setLeap m li = m\<lparr>LiVnMode := (LiVnMode m AND 0x3F) OR push_bit 6 (li AND 0x03)\<rparr>"

definition getMode :: "msg \<Rightarrow> byte" where
  "getMode m = LiVnMode m AND 0x07"

definition getVersion :: "msg \<Rightarrow> byte" where
  "getVersion m = drop_bit 3 (LiVnMode m) AND 0x07"

definition getLeap :: "msg \<Rightarrow> byte" where
  "getLeap m = drop_bit 6 (LiVnMode m) AND 0x03"

subsection \<open>Big-endian encoding (package encoding/binary)\<close>

text \<open>
  \<open>binary.BigEndian.Uint64(b)\<close> reads \<open>b[0..7]\<close>, most significant byte first, and
  \<open>Uint32\<close> reads \<open>b[0..3]\<close>. Go panics on a shorter slice; the model calls them on
  slices of the right length only (an 8-byte buffer, or a slice cut from 48 bytes).
\<close>

definition Uint32 :: "byte list \<Rightarrow> 32 word" where
  "Uint32 b = ucast (b ! 3) OR push_bit 8 (ucast (b ! 2)) OR push_bit 16 (ucast (b ! 1))
     OR push_bit 24 (ucast (b ! 0))"

definition Uint64 :: "byte list \<Rightarrow> 64 word" where
  "Uint64 b = ucast (b ! 7) OR push_bit 8 (ucast (b ! 6)) OR push_bit 16 (ucast (b ! 5))
     OR push_bit 24 (ucast (b ! 4)) OR push_bit 32 (ucast (b ! 3)) OR push_bit 40 (ucast (b ! 2))
     OR push_bit 48 (ucast (b ! 1)) OR push_bit 56 (ucast (b ! 0))"

definition PutUint32 :: "32 word \<Rightarrow> byte list" where
  "PutUint32 v = [ucast (drop_bit 24 v), ucast (drop_bit 16 v), ucast (drop_bit 8 v), ucast v]"

definition PutUint64 :: "64 word \<Rightarrow> byte list" where
  "PutUint64 v = [ucast (drop_bit 56 v), ucast (drop_bit 48 v), ucast (drop_bit 40 v),
     ucast (drop_bit 32 v), ucast (drop_bit 24 v), ucast (drop_bit 16 v),
     ucast (drop_bit 8 v), ucast v]"

text \<open>The 48 bytes of a packet: the fields in declaration order.\<close>

definition encode :: "msg \<Rightarrow> byte list" where
  "encode m = [LiVnMode m, Stratum m, Poll m, Precision m]
     @ PutUint32 (RootDelay m) @ PutUint32 (RootDispersion m) @ PutUint32 (ReferenceID m)
     @ PutUint64 (ReferenceTime m) @ PutUint64 (OriginTime m)
     @ PutUint64 (ReceiveTime m) @ PutUint64 (TransmitTime m)"

definition decode :: "byte list \<Rightarrow> msg" where
  "decode b = \<lparr>LiVnMode = b ! 0, Stratum = b ! 1, Poll = b ! 2, Precision = b ! 3,
     RootDelay = Uint32 (take 4 (drop 4 b)),
     RootDispersion = Uint32 (take 4 (drop 8 b)),
     ReferenceID = Uint32 (take 4 (drop 12 b)),
     ReferenceTime = Uint64 (take 8 (drop 16 b)),
     OriginTime = Uint64 (take 8 (drop 24 b)),
     ReceiveTime = Uint64 (take 8 (drop 32 b)),
     TransmitTime = Uint64 (take 8 (drop 40 b))\<rparr>"

text \<open>
  \<open>binary.Write(w, binary.BigEndian, xmitMsg)\<close> into a buffered writer over a
  \<open>bytes.Buffer\<close>: a struct of fixed-size fields always encodes, and the buffer always
  accepts the bytes, so the error is nil.
\<close>

definition binaryWrite :: "msg \<Rightarrow> byte list \<times> error option" where
  "binaryWrite m = (encode m, None)"

text \<open>
  \<open>binary.Read(bytes.NewReader(buf), binary.BigEndian, recvMsg)\<close> fills a 48-byte
  scratch buffer with \<open>io.ReadFull\<close>: \<open>io.EOF\<close> when the reader has no byte at
  all, \<open>io.ErrUnexpectedEOF\<close> when it has fewer than 48, and otherwise the first 48
  bytes are decoded into \<open>recvMsg\<close> (bytes beyond them stay unread). On an error
  \<open>recvMsg\<close> keeps its value.
\<close>

definition binaryRead :: "byte list \<Rightarrow> msg \<Rightarrow> msg \<times> error option" where
  "binaryRead buf recvMsg =
     (if length buf = 0 then (recvMsg, Some EOF)
      else if length buf < 48 then (recvMsg, Some ErrUnexpectedEOF)
      else (decode (take 48 buf), None))"

text \<open>Go's built-in \<open>copy(dst, src)\<close>: the first \<open>min (len dst) (len src)\<close> bytes are overwritten.\<close>

definition copy :: "'a list \<Rightarrow> 'a list \<Rightarrow> 'a list" where
  "copy dst src = take (length dst) src @ drop (length src) dst"

subsection \<open>What one call reads from the process: randomness and the clock\<close>

text \<open>
  \<open>randBytes\<close> and \<open>randErr\<close>: the bytes \<open>crypto/rand\<close> delivers into the 8-byte
  buffer and the error of \<open>rand.Read\<close>. \<open>nowXmit\<close>: the reading of \<open>time.Now()\<close>
  taken in \<open>getTime\<close> (both branches take it right after \<open>rand.Read\<close>).
  \<open>sinceXmit\<close>: the value of \<open>time.Since(xmitTime)\<close> after the exchange.
  \<open>nowRet\<close>: the reading of \<open>time.Now()\<close> taken by \<open>TimeV\<close> when it returns.
\<close>

record env =
  randBytes :: "byte list"
  randErr :: "error option"
  nowXmit :: time
  sinceXmit :: duration
  nowRet :: time

text \<open>\<open>bits := make([]byte, 8); _, err := rand.Read(bits)\<close>\<close>

definition randRead :: "env \<Rightarrow> byte list \<times> error option" where
  "randRead e = (copy (replicate 8 0) (randBytes e), randErr e)"

text \<open>Modelled from the spec: \<open>QueryOptions\<close> is declared outside the source file; its one option is \<open>Version\<close>, a Go \<open>int\<close>.\<close>

record QueryOptions =
  Version :: int

subsection \<open>getTime\<close>

text \<open>
  \<open>getTime toNtpTime e rawFunc opt\<close> follows the source line by line. \<open>toNtpTime\<close>
  (declared outside the source file) is a parameter. The transport \<open>rawFunc\<close> maps the
  request bytes to the pair \<open>([]byte, error)\<close> it returns. The result is the list of
  buffers handed to \<open>rawFunc\<close>, in order, and the returned triple.

  Line 189 assigns the transport's error to \<open>err\<close>, and line 191 assigns
  \<open>binary.Read\<close>'s error to the same variable before anything reads it.
\<close>

definition getTime ::
  "(time \<Rightarrow> ntpTime) \<Rightarrow> env \<Rightarrow> (byte list \<Rightarrow> byte list \<times> error option) \<Rightarrow> QueryOptions
     \<Rightarrow> byte list list \<times> (msg option \<times> ntpTime \<times> error option)" where
  "getTime toNtpTime e rawFunc opt =
    (let version = (if Version opt = 0 then defaultNtpVersion else Version opt) in
     if version < 2 \<or> version > 4 then ([], (None, 0, Some (ErrorsNew ''invalid protocol version requested'')))
     else
      let recvMsg = new_msg;
          xmitMsg = setLeap (setVersion (setMode new_msg client) version) LeapNotInSync;
          (bits, err) = randRead e;
          xmitTime = nowXmit e;
          xmitMsg = (if err = None then xmitMsg\<lparr>TransmitTime := Uint64 bits\<rparr>
                     else xmitMsg\<lparr>TransmitTime := toNtpTime xmitTime\<rparr>);
          (rawData, err) = binaryWrite xmitMsg
      in if err \<noteq> None then ([], (None, 0, err))
      else
       let (recBuf, err) = rawFunc rawData;
           (recvMsg, err) = binaryRead recBuf recvMsg
       in if err \<noteq> None then ([rawData], (None, 0, err))
       else
        let delta = sinceXmit e
        in if delta < 0 then ([rawData], (None, 0, Some (ErrorsNew ''client clock ticked backwards'')))
        else
         let recvTime = toNtpTime (nowXmit e + delta)
         in if getMode recvMsg \<noteq> server then
              ([rawData], (None, 0, Some (ErrorsNew ''invalid mode in response'')))
            else if TransmitTime recvMsg = 0 then
              ([rawData], (None, 0, Some (ErrorsNew ''invalid transmit time in response'')))
            else if OriginTime recvMsg \<noteq> TransmitTime xmitMsg then
              ([rawData], (None, 0, Some (ErrorsNew ''server response mismatch'')))
            else if ReceiveTime recvMsg > TransmitTime recvMsg then
              ([rawData], (None, 0, Some (ErrorsNew ''server clock ticked backwards'')))
            else ([rawData], (Some (recvMsg\<lparr>OriginTime := toNtpTime xmitTime\<rparr>), recvTime, None)))"

subsection \<open>The response record and parseTime\<close>

text \<open>
  Modelled from the spec: \<open>ntpTime.toTime()\<close> is declared outside the source file.
  Calendar time = NTP epoch + seconds + fraction/2^32; an instant is measured from the
  NTP epoch, so the epoch is 0.
\<close>

definition toTime :: "ntpTime \<Rightarrow> time" where
  "toTime t = of_nat (unat (drop_bit 32 t)) + of_nat (unat (t AND 0xFFFFFFFF)) / 2 ^ 32"

text \<open>
  Modelled from the spec: the 16.16 fixed-point fields in seconds, RootDelay signed and
  RootDispersion unsigned.
\<close>

definition rootDelaySeconds :: "32 word \<Rightarrow> duration" where
  "rootDelaySeconds w = of_int (sint w) / 2 ^ 16"

definition rootDispersionSeconds :: "32 word \<Rightarrow> duration" where
  "rootDispersionSeconds w = of_nat (unat w) / 2 ^ 16"

text \<open>
  Modelled from the spec: the \<open>Response\<close> record is declared outside the source file.
  These are the fields the spec's steps 10 and 11 fill.
\<close>

record Response =
  RoundTripDelay :: duration
  ClockOffset :: duration
  RootDistance :: duration
  RespStratum :: byte
  RespLeap :: byte
  RespPrecision :: byte
  RespPoll :: byte
  RespReferenceID :: "32 word"

text \<open>
  Modelled from the spec: \<open>parseTime\<close> is declared outside the source file. With
  t1 = OriginTime (corrected), t2 = ReceiveTime, t3 = TransmitTime of the reply and
  t4 = the local receive timestamp: RoundTripDelay = (t4 - t1) - (t3 - t2),
  ClockOffset = ((t2 - t1) + (t3 - t4)) / 2, RootDistance = RootDelay/2 + RootDispersion,
  and Stratum, Leap, Precision, Poll, ReferenceID verbatim from the reply.
\<close>

definition parseTime :: "msg \<Rightarrow> ntpTime \<Rightarrow> Response" where
  "parseTime m recvTime =
    (let t1 = toTime (OriginTime m); t2 = toTime (ReceiveTime m);
         t3 = toTime (TransmitTime m); t4 = toTime recvTime
     in \<lparr>RoundTripDelay = (t4 - t1) - (t3 - t2),
         ClockOffset = ((t2 - t1) + (t3 - t4)) / 2,
         RootDistance = rootDelaySeconds (RootDelay m) / 2 + rootDispersionSeconds (RootDispersion m),
         RespStratum = Stratum m,
         RespLeap = getLeap m,
         RespPrecision = Precision m,
         RespPoll = Poll m,
         RespReferenceID = ReferenceID m\<rparr>)"

subsection \<open>The public operations\<close>

text \<open>
  \<open>parseTime(m, now)\<close> reads through the pointer \<open>m\<close>: on a nil pointer the call
  panics.
\<close>

definition QueryWithOptions ::
  "(time \<Rightarrow> ntpTime) \<Rightarrow> env \<Rightarrow> (byte list \<Rightarrow> byte list \<times> error option) \<Rightarrow> QueryOptions
     \<Rightarrow> byte list list \<times> (Response option \<times> error option) outcome" where
  "QueryWithOptions toNtpTime e rawFunc opt =
    (let (calls, m, now, err) = getTime toNtpTime e rawFunc opt
     in if err \<noteq> None then (calls, Return (None, err))
        else case m of
               None \<Rightarrow> (calls, Panic)
             | Some mm \<Rightarrow> (calls, Return (Some (parseTime mm now), None)))"

text \<open>\<open>QueryOptions{}\<close> is the zero value: \<open>Version\<close> 0.\<close>

definition Query ::
  "(time \<Rightarrow> ntpTime) \<Rightarrow> env \<Rightarrow> (byte list \<Rightarrow> byte list \<times> error option)
     \<Rightarrow> byte list list \<times> (Response option \<times> error option) outcome" where
  "Query toNtpTime e rawFunc = QueryWithOptions toNtpTime e rawFunc \<lparr>Version = 0\<rparr>"

text \<open>
  \<open>Response.Validate\<close> is declared outside the source file: it is the parameter
  \<open>Validate\<close>, with \<open>None\<close> for a nil error.
\<close>

definition TimeV ::
  "(time \<Rightarrow> ntpTime) \<Rightarrow> (Response \<Rightarrow> error option) \<Rightarrow> env
     \<Rightarrow> (byte list \<Rightarrow> byte list \<times> error option) \<Rightarrow> int
     \<Rightarrow> byte list list \<times> (time \<times> error option) outcome" where
  "TimeV toNtpTime Validate e rawFunc version =
    (let (calls, m, recvTime, err) = getTime toNtpTime e rawFunc \<lparr>Version = version\<rparr>
     in if err \<noteq> None then (calls, Return (nowRet e, err))
        else case m of
               None \<Rightarrow> (calls, Panic)
             | Some mm \<Rightarrow>
                 let r = parseTime mm recvTime;
                     err = Validate r
                 in if err \<noteq> None then (calls, Return (nowRet e, err))
                    else (calls, Return (nowRet e + ClockOffset r, None)))"

definition Time ::
  "(time \<Rightarrow> ntpTime) \<Rightarrow> (Response \<Rightarrow> error option) \<Rightarrow> env
     \<Rightarrow> (byte list \<Rightarrow> byte list \<times> error option)
     \<Rightarrow> byte list list \<times> (time \<times> error option) outcome" where
  "Time toNtpTime Validate e rawFunc = TimeV toNtpTime Validate e rawFunc defaultNtpVersion"

subsection \<open>MakeDefaultHandler\<close>

text \<open>
  The calls into package \<open>net\<close>, as the handler sees them. A resolved address and a
  connection are opaque. \<open>ResolveUDPAddr\<close> and \<open>DialUDP\<close> give a value or an error.
  \<open>connRead con timeout sent\<close> is what \<open>con.Read\<close> finds before the deadline set from
  \<open>timeout\<close>, after \<open>sent\<close> went out: the bytes of the datagram and the error; the
  read copies the bytes into the caller's buffer, as many as fit.
\<close>

type_synonym UDPAddr = string
type_synonym conn = nat

record network =
  ResolveUDPAddr :: "string \<Rightarrow> string \<Rightarrow> error + UDPAddr"
  DialUDP :: "string \<Rightarrow> UDPAddr option \<Rightarrow> UDPAddr \<Rightarrow> error + conn"
  SetTTL :: "conn \<Rightarrow> int \<Rightarrow> error option"
  connWrite :: "conn \<Rightarrow> byte list \<Rightarrow> error option"
  connRead :: "conn \<Rightarrow> duration \<Rightarrow> byte list \<Rightarrow> byte list \<times> error option"

text \<open>\<open>net.JoinHostPort\<close>: a host that contains a colon is put in brackets.\<close>

definition JoinHostPort :: "string \<Rightarrow> string \<Rightarrow> string" where
  "JoinHostPort host port =
    (if CHR '':'' \<in> set host then ''['' @ host @ '']:'' @ port else host @ '':'' @ port)"

text \<open>
  The handler returns a nil slice next to every error. The count \<open>con.Read\<close> returns is
  dropped (\<open>_, err = con.Read(recvMsg)\<close>); the buffer was made with the request's
  length and is returned whole. \<open>con.SetDeadline\<close> and the deferred \<open>con.Close\<close>
  return nothing the handler reads; the deadline reaches the model as the timeout given
  to \<open>connRead\<close> (5 seconds when \<open>Timeout\<close> is 0).
\<close>

definition MakeDefaultHandler ::
  "network \<Rightarrow> string \<Rightarrow> string \<Rightarrow> string \<Rightarrow> string \<Rightarrow> int \<Rightarrow> duration
     \<Rightarrow> byte list \<Rightarrow> byte list \<times> error option" where
  "MakeDefaultHandler net Host Protocol Port LocalAddress TTL Timeout =
    (let Timeout = (if Timeout = 0 then 5 else Timeout);
         Protocol = (if Protocol = [] then ''udp'' else Protocol);
         Port = (if Port = [] then ''123'' else Port)
     in (\<lambda>data.
       case ResolveUDPAddr net Protocol (JoinHostPort Host Port) of
         Inl err \<Rightarrow> ([], Some err)
       | Inr raddr \<Rightarrow>
          (case (if LocalAddress \<noteq> []
                 then map_sum id Some (ResolveUDPAddr net Protocol (JoinHostPort LocalAddress ''0''))
                 else Inr None) of
             Inl err \<Rightarrow> ([], Some err)
           | Inr laddr \<Rightarrow>
              (case DialUDP net Protocol laddr raddr of
                 Inl err \<Rightarrow> ([], Some err)
               | Inr con \<Rightarrow>
                  (case (if TTL \<noteq> 0 then SetTTL net con TTL else None) of
                     Some err \<Rightarrow> ([], Some err)
                   | None \<Rightarrow>
                      (case connWrite net con data of
                         Some err \<Rightarrow> ([], Some err)
                       | None \<Rightarrow>
                          let recvMsg = replicate (length data) 0;
                              (got, err) = connRead net con Timeout data;
                              recvMsg = copy recvMsg got
                          in if err \<noteq> None then ([], err) else (recvMsg, None)))))))"

section \<open>Properties\<close>

subsection \<open>Encoding and decoding\<close>

text \<open>Bit \<open>n\<close> of the byte cut from position \<open>k\<close> of a word and put back there.\<close>

lemma bit_byte_at:
  "bit (push_bit k (ucast (ucast (drop_bit k (w::'a::len word)) :: byte)) :: 'a word) n
     \<longleftrightarrow> k \<le> n \<and> n < k + 8 \<and> bit w n"
  by (auto simp add: bit_simps dest: bit_imp_le_length)

lemma bit_byte_low:
  "bit (ucast (ucast (w::'a::len word) :: byte) :: 'a word) n \<longleftrightarrow> n < 8 \<and> bit w n"
  by (auto simp add: bit_simps dest: bit_imp_le_length)

lemma Uint32_PutUint32 [simp]: "Uint32 (PutUint32 w) = w"
proof (rule bit_word_eqI)
  fix n assume "n < LENGTH(32)"
  then have n: "n < 32" by simp
  have "bit (Uint32 (PutUint32 w)) n \<longleftrightarrow>
      bit w n \<and> (n < 8 \<or> (8 \<le> n \<and> n < 16) \<or> (16 \<le> n \<and> n < 24) \<or> (24 \<le> n \<and> n < 32))"
    unfolding Uint32_def PutUint32_def
    by (simp add: bit_or_iff bit_byte_at bit_byte_low) blast
  also have "\<dots> \<longleftrightarrow> bit w n" using n by auto
  finally show "bit (Uint32 (PutUint32 w)) n \<longleftrightarrow> bit w n" .
qed

lemma Uint64_PutUint64 [simp]: "Uint64 (PutUint64 w) = w"
proof (rule bit_word_eqI)
  fix n assume "n < LENGTH(64)"
  then have n: "n < 64" by simp
  have "bit (Uint64 (PutUint64 w)) n \<longleftrightarrow>
      bit w n \<and> (n < 8 \<or> (8 \<le> n \<and> n < 16) \<or> (16 \<le> n \<and> n < 24) \<or> (24 \<le> n \<and> n < 32)
        \<or> (32 \<le> n \<and> n < 40) \<or> (40 \<le> n \<and> n < 48) \<or> (48 \<le> n \<and> n < 56) \<or> (56 \<le> n \<and> n < 64))"
    unfolding Uint64_def PutUint64_def
    by (simp add: bit_or_iff bit_byte_at bit_byte_low) blast
  also have "\<dots> \<longleftrightarrow> bit w n" using n by auto
  finally show "bit (Uint64 (PutUint64 w)) n \<longleftrightarrow> bit w n" .
qed

lemma length_PutUint32 [simp]: "length (PutUint32 w) = 4"
  by (simp add: PutUint32_def)

lemma length_PutUint64 [simp]: "length (PutUint64 w) = 8"
  by (simp add: PutUint64_def)

lemma length_encode [simp]: "length (encode m) = 48"
  by (simp add: encode_def)

lemma encode_neq_Nil [simp]: "encode m \<noteq> []"
  using length_encode [of m] by (auto simp del: length_encode)

lemma decode_encode [simp]: "decode (encode m) = m"
  by (simp add: decode_def encode_def)

text \<open>The other direction: eight bytes read as a word and written back.\<close>

lemma bit_push_byte:
  "bit (push_bit j (ucast (b::byte)) :: 64 word) i \<longleftrightarrow> j \<le> i \<and> i < j + 8 \<and> i < 64 \<and> bit b (i - j)"
  by (auto simp add: bit_simps dest: bit_imp_le_length)

lemma bit_low_byte:
  "bit (ucast (b::byte) :: 64 word) i \<longleftrightarrow> i < 8 \<and> bit b i"
  by (auto simp add: bit_simps dest: bit_imp_le_length)

lemma bit_cut_low:
  "bit (ucast (w::64 word) :: byte) n \<longleftrightarrow> n < 8 \<and> bit w n"
  by (auto simp add: bit_simps)

lemma PutUint64_Uint64:
  "PutUint64 (Uint64 [b0, b1, b2, b3, b4, b5, b6, b7]) = [b0, b1, b2, b3, b4, b5, b6, b7]"
proof -
  define W :: "64 word" where "W = ucast b7 OR push_bit 8 (ucast b6) OR push_bit 16 (ucast b5)
     OR push_bit 24 (ucast b4) OR push_bit 32 (ucast b3) OR push_bit 40 (ucast b2)
     OR push_bit 48 (ucast b1) OR push_bit 56 (ucast b0)"
  have U: "Uint64 [b0, b1, b2, b3, b4, b5, b6, b7] = W"
    by (simp add: Uint64_def W_def)
  have "ucast (drop_bit 56 W) = b0" "ucast (drop_bit 48 W) = b1" "ucast (drop_bit 40 W) = b2"
    "ucast (drop_bit 32 W) = b3" "ucast (drop_bit 24 W) = b4" "ucast (drop_bit 16 W) = b5"
    "ucast (drop_bit 8 W) = b6" "ucast W = b7"
    unfolding W_def
    by (rule bit_word_eqI,
        simp only: bit_cut_low bit_drop_bit_eq comp_def bit_or_iff bit_push_byte bit_low_byte,
        simp)+
  then show ?thesis
    unfolding U PutUint64_def by (simp only:)
qed

lemma PutUint64_Uint64_length:
  assumes "length bs = 8"
  shows "PutUint64 (Uint64 bs) = bs"
proof -
  from assms obtain b0 b1 b2 b3 b4 b5 b6 b7 where "bs = [b0, b1, b2, b3, b4, b5, b6, b7]"
    by (auto simp add: eval_nat_numeral length_Suc_conv)
  then show ?thesis by (simp only: PutUint64_Uint64)
qed

lemma drop_40_encode: "drop 40 (encode m) = PutUint64 (TransmitTime m)"
  by (simp add: encode_def)

subsection \<open>The paths through getTime\<close>

text \<open>A version that is not 2, 3 or 4 after defaulting leaves at line 154.\<close>

lemma getTime_bad_version:
  assumes "v = (if Version opt = 0 then defaultNtpVersion else Version opt)" "v < 2 \<or> v > 4"
  shows "getTime toNtpTime e rawFunc opt = ([], (None, 0, Some InvalidVersion))"
  using assms by (simp add: getTime_def InvalidVersion_def Let_def)

text \<open>
  With a valid version the request \<open>xm\<close> is encoded and handed to the transport once;
  what comes back is the buffer \<open>buf\<close>, and the checks run in the order of the source.
\<close>

lemma getTime_valid:
  fixes toNtpTime e rawFunc opt v
  defines "xm \<equiv> (setLeap (setVersion (setMode new_msg client) v) LeapNotInSync)
      \<lparr>TransmitTime := (if randErr e = None then Uint64 (fst (randRead e)) else toNtpTime (nowXmit e))\<rparr>"
  defines "buf \<equiv> fst (rawFunc (encode xm))"
  defines "rm \<equiv> decode (take 48 buf)"
  assumes v: "v = (if Version opt = 0 then defaultNtpVersion else Version opt)" "2 \<le> v" "v \<le> 4"
  shows "getTime toNtpTime e rawFunc opt = ([encode xm],
      if buf = [] then (None, 0, Some EOF)
      else if length buf < 48 then (None, 0, Some ErrUnexpectedEOF)
      else if sinceXmit e < 0 then (None, 0, Some ClockRanBackwards)
      else if getMode rm \<noteq> server then (None, 0, Some UnexpectedMode)
      else if TransmitTime rm = 0 then (None, 0, Some InvalidTransmitTime)
      else if OriginTime rm \<noteq> TransmitTime xm then (None, 0, Some OriginMismatch)
      else if ReceiveTime rm > TransmitTime rm then (None, 0, Some ServerClockRanBackwards)
      else (Some (rm\<lparr>OriginTime := toNtpTime (nowXmit e)\<rparr>), toNtpTime (nowXmit e + sinceXmit e), None))"
proof -
  have nv: "\<not> (v < 2 \<or> v > 4)" using v by simp
  define xm0 where "xm0 = setLeap (setVersion (setMode new_msg client) v) LeapNotInSync"
  have xm: "(if snd (randRead e) = None then xm0\<lparr>TransmitTime := Uint64 (fst (randRead e))\<rparr>
            else xm0\<lparr>TransmitTime := toNtpTime (nowXmit e)\<rparr>) = xm"
    by (simp add: xm_def xm0_def randRead_def)
  have "getTime toNtpTime e rawFunc opt =
     (let (recBuf, err) = rawFunc (encode xm);
           (recvMsg, err) = binaryRead recBuf new_msg
       in if err \<noteq> None then ([encode xm], (None, 0, err))
       else
        let delta = sinceXmit e
        in if delta < 0 then ([encode xm], (None, 0, Some (ErrorsNew ''client clock ticked backwards'')))
        else
         let recvTime = toNtpTime (nowXmit e + delta)
         in if getMode recvMsg \<noteq> server then
              ([encode xm], (None, 0, Some (ErrorsNew ''invalid mode in response'')))
            else if TransmitTime recvMsg = 0 then
              ([encode xm], (None, 0, Some (ErrorsNew ''invalid transmit time in response'')))
            else if OriginTime recvMsg \<noteq> TransmitTime xm then
              ([encode xm], (None, 0, Some (ErrorsNew ''server response mismatch'')))
            else if ReceiveTime recvMsg > TransmitTime recvMsg then
              ([encode xm], (None, 0, Some (ErrorsNew ''server clock ticked backwards'')))
            else ([encode xm], (Some (recvMsg\<lparr>OriginTime := toNtpTime (nowXmit e)\<rparr>), recvTime, None)))"
    unfolding getTime_def v(1)[symmetric] Let_def split_def binaryWrite_def fst_conv snd_conv
      xm0_def[symmetric] xm
    using nv by (simp only: if_False not_None_eq refl simp_thms option.simps)
  also have "\<dots> = ([encode xm],
      if buf = [] then (None, 0, Some EOF)
      else if length buf < 48 then (None, 0, Some ErrUnexpectedEOF)
      else if sinceXmit e < 0 then (None, 0, Some ClockRanBackwards)
      else if getMode rm \<noteq> server then (None, 0, Some UnexpectedMode)
      else if TransmitTime rm = 0 then (None, 0, Some InvalidTransmitTime)
      else if OriginTime rm \<noteq> TransmitTime xm then (None, 0, Some OriginMismatch)
      else if ReceiveTime rm > TransmitTime rm then (None, 0, Some ServerClockRanBackwards)
      else (Some (rm\<lparr>OriginTime := toNtpTime (nowXmit e)\<rparr>), toNtpTime (nowXmit e + sinceXmit e), None))"
    unfolding buf_def rm_def ClockRanBackwards_def UnexpectedMode_def InvalidTransmitTime_def
      OriginMismatch_def ServerClockRanBackwards_def
    by (simp add: split_def Let_def binaryRead_def)
  finally show ?thesis .
qed

text \<open>
  Next to an error the message pointer is nil and the timestamp 0; without an error the
  message pointer is not nil.
\<close>

lemma getTime_shape:
  assumes "getTime toNtpTime e rawFunc opt = (calls, m, t, err)"
  shows "(err \<noteq> None \<longrightarrow> m = None \<and> t = 0) \<and> (err = None \<longrightarrow> m \<noteq> None)"
proof -
  define v where "v = (if Version opt = 0 then defaultNtpVersion else Version opt)"
  show ?thesis
  proof (cases "v < 2 \<or> v > 4")
    case True
    from getTime_bad_version [OF v_def True, of toNtpTime e rawFunc] assms
    show ?thesis by simp
  next
    case False
    then have "2 \<le> v" "v \<le> 4" by auto
    from getTime_valid [OF v_def this, of toNtpTime e rawFunc] assms
    show ?thesis by (auto split: if_splits)
  qed
qed

text \<open>When the transport was called, the version was valid and the request is the encoded packet.\<close>

lemma getTime_called:
  assumes "fst (getTime toNtpTime e rawFunc opt) = [req]"
  defines "v \<equiv> (if Version opt = 0 then defaultNtpVersion else Version opt)"
  shows "2 \<le> v \<and> v \<le> 4 \<and> req = encode ((setLeap (setVersion (setMode new_msg client) v) LeapNotInSync)
      \<lparr>TransmitTime := (if randErr e = None then Uint64 (fst (randRead e)) else toNtpTime (nowXmit e))\<rparr>)"
proof (cases "v < 2 \<or> v > 4")
  case True
  have v: "v = (if Version opt = 0 then defaultNtpVersion else Version opt)" by (simp add: v_def)
  from getTime_bad_version [OF v True, of toNtpTime e rawFunc] assms(1)
  show ?thesis by simp
next
  case False
  have v: "v = (if Version opt = 0 then defaultNtpVersion else Version opt)" by (simp add: v_def)
  from False have r: "2 \<le> v" "v \<le> 4" by auto
  from getTime_valid [OF v r, of toNtpTime e rawFunc] assms(1) r
  show ?thesis by simp
qed

text \<open>A random source that fills the 8-byte buffer leaves exactly its bytes there.\<close>

lemma randRead_full: "length (randBytes e) = 8 \<Longrightarrow> fst (randRead e) = randBytes e"
  by (simp add: randRead_def copy_def)

subsection \<open>The transport's error\<close>

text \<open>
  Claim C1: an error returned by the transport function is returned by \<open>getTime\<close>
  unmodified. The code does not do this: the transport's error is assigned to \<open>err\<close>
  at line 189 and overwritten by \<open>binary.Read\<close>'s at line 191. A transport that fails
  the way \<open>MakeDefaultHandler\<close> does, with a nil buffer and a timeout error, makes
  \<open>getTime\<close> return \<open>io.EOF\<close>; a transport that returns a well-formed reply together
  with an error makes \<open>getTime\<close> return no error at all; and the transport built by
  \<open>MakeDefaultHandler\<close> over a network whose read times out makes \<open>getTime\<close> return
  \<open>io.EOF\<close> as well.
\<close>

theorem getTime_transport_error_lost:
  "snd (getTime toNtpTime e (\<lambda>data. ([], Some (NetError ''i/o timeout''))) \<lparr>Version = 4\<rparr>)
     = (None, 0, Some EOF)
   \<and> snd (snd (snd (getTime toNtpTime (e\<lparr>sinceXmit := 0\<rparr>)
        (\<lambda>data. (encode ((decode data)\<lparr>LiVnMode := 0x24, OriginTime := TransmitTime (decode data),
                    ReceiveTime := 1, TransmitTime := 1\<rparr>), Some (NetError ''i/o timeout'')))
        \<lparr>Version = 4\<rparr>))) = None
   \<and> snd (getTime toNtpTime e
        (MakeDefaultHandler
           \<lparr>ResolveUDPAddr = \<lambda>proto addr. Inr addr, DialUDP = \<lambda>proto laddr raddr. Inr 0,
            SetTTL = \<lambda>con ttl. None, connWrite = \<lambda>con sent. None,
            connRead = \<lambda>con tmo sent. ([], Some (NetError ''i/o timeout''))\<rparr>
           ''pool.ntp.org'' [] [] [] 0 0)
        \<lparr>Version = 4\<rparr>) = (None, 0, Some EOF)"
proof (intro conjI)
  have v: "(4::int) = (if Version \<lparr>Version = 4\<rparr> = 0 then defaultNtpVersion else Version \<lparr>Version = 4\<rparr>)"
    by simp
  show "snd (getTime toNtpTime e (\<lambda>data. ([], Some (NetError ''i/o timeout''))) \<lparr>Version = 4\<rparr>)
     = (None, 0, Some EOF)"
    by (simp add: getTime_valid [OF v])
  show "snd (snd (snd (getTime toNtpTime (e\<lparr>sinceXmit := 0\<rparr>)
        (\<lambda>data. (encode ((decode data)\<lparr>LiVnMode := 0x24, OriginTime := TransmitTime (decode data),
                    ReceiveTime := 1, TransmitTime := 1\<rparr>), Some (NetError ''i/o timeout'')))
        \<lparr>Version = 4\<rparr>))) = None"
    by (simp add: getTime_valid [OF v] getMode_def server_def)
  show "snd (getTime toNtpTime e
        (MakeDefaultHandler
           \<lparr>ResolveUDPAddr = \<lambda>proto addr. Inr addr, DialUDP = \<lambda>proto laddr raddr. Inr 0,
            SetTTL = \<lambda>con ttl. None, connWrite = \<lambda>con sent. None,
            connRead = \<lambda>con tmo sent. ([], Some (NetError ''i/o timeout''))\<rparr>
           ''pool.ntp.org'' [] [] [] 0 0)
        \<lparr>Version = 4\<rparr>) = (None, 0, Some EOF)"
    by (simp add: getTime_valid [OF v] MakeDefaultHandler_def)
qed

subsection \<open>The version check\<close>

text \<open>
  Claim C3: \<open>Version\<close> 0 is treated as the default version 4, and a \<open>Version\<close> that is
  neither 0 nor one of 2, 3, 4 fails with \<open>InvalidVersion\<close> before the transport is
  invoked: the list of transport calls is empty. With \<open>Version\<close> 0, 2, 3 or 4 the
  transport is called once, with 48 bytes whose version field is the effective version.
\<close>

theorem getTime_version_check:
  "(Version opt = 0 \<longrightarrow>
      getTime toNtpTime e rawFunc opt = getTime toNtpTime e rawFunc (opt\<lparr>Version := 4\<rparr>))
   \<and> (Version opt \<noteq> 0 \<and> Version opt \<notin> {2, 3, 4} \<longrightarrow>
      getTime toNtpTime e rawFunc opt = ([], (None, 0, Some InvalidVersion)))
   \<and> (Version opt \<in> {0, 2, 3, 4} \<longrightarrow>
      (\<exists>req. fst (getTime toNtpTime e rawFunc opt) = [req] \<and> length req = 48
         \<and> getVersion (decode req) = word_of_int (if Version opt = 0 then 4 else Version opt)))"
proof (intro conjI impI)
  assume "Version opt = 0"
  then show "getTime toNtpTime e rawFunc opt = getTime toNtpTime e rawFunc (opt\<lparr>Version := 4\<rparr>)"
    by (simp add: getTime_def defaultNtpVersion_def)
next
  assume a: "Version opt \<noteq> 0 \<and> Version opt \<notin> {2, 3, 4}"
  then have "Version opt < 2 \<or> Version opt > 4" by auto
  with a show "getTime toNtpTime e rawFunc opt = ([], (None, 0, Some InvalidVersion))"
    by (intro getTime_bad_version [where v = "Version opt"]) auto
next
  assume a: "Version opt \<in> {0, 2, 3, 4}"
  define v where "v = (if Version opt = 0 then defaultNtpVersion else Version opt)"
  from a have v: "v = 2 \<or> v = 3 \<or> v = 4" by (auto simp: v_def defaultNtpVersion_def)
  then have r: "2 \<le> v" "v \<le> 4" by auto
  have v': "(if Version opt = 0 then 4 else Version opt) = v"
    by (simp add: v_def defaultNtpVersion_def)
  have "getVersion ((setLeap (setVersion (setMode new_msg client) v) LeapNotInSync)\<lparr>TransmitTime := x\<rparr>)
      = word_of_int v" for x
    using v by (auto simp add: getVersion_def setLeap_def setVersion_def setMode_def new_msg_def
        client_def LeapNotInSync_def)
  then show "\<exists>req. fst (getTime toNtpTime e rawFunc opt) = [req] \<and> length req = 48
         \<and> getVersion (decode req) = word_of_int (if Version opt = 0 then 4 else Version opt)"
    unfolding v' getTime_valid [OF v_def r, of toNtpTime e rawFunc] by simp
qed

theorem getTime_version_check_witness:
  "getTime (\<lambda>t. 0) \<lparr>randBytes = [], randErr = None, nowXmit = 0, sinceXmit = 0, nowRet = 0\<rparr>
      (\<lambda>data. ([], None)) \<lparr>Version = 5\<rparr> = ([], (None, 0, Some InvalidVersion))
   \<and> (\<exists>req. fst (getTime (\<lambda>t. 0) \<lparr>randBytes = [], randErr = None, nowXmit = 0, sinceXmit = 0, nowRet = 0\<rparr>
      (\<lambda>data. ([], None)) \<lparr>Version = 0\<rparr>) = [req] \<and> length req = 48 \<and> getVersion (decode req) = 4)"
  using getTime_version_check [of "\<lparr>Version = 5\<rparr>" "\<lambda>t. 0"
      "\<lparr>randBytes = [], randErr = None, nowXmit = 0, sinceXmit = 0, nowRet = 0\<rparr>" "\<lambda>data. ([], None)"]
    getTime_version_check [of "\<lparr>Version = 0\<rparr>" "\<lambda>t. 0"
      "\<lparr>randBytes = [], randErr = None, nowXmit = 0, sinceXmit = 0, nowRet = 0\<rparr>" "\<lambda>data. ([], None)",
      THEN conjunct2, THEN conjunct2]
  by simp

subsection \<open>Validation of the reply\<close>

text \<open>
  Claim C2: \<open>getTime\<close> succeeds only if the four protocol checks hold on the decoded
  reply \<open>rm\<close>: Mode is Server, TransmitTime is not zero, OriginTime equals the
  TransmitTime of the request that went to the transport, and ReceiveTime does not
  exceed TransmitTime. Once a reply of 48 bytes or more has arrived and the local delta
  is not negative, the four checks also suffice, and the first check that fails, in
  this order, decides the error: UnexpectedMode, InvalidTransmitTime, OriginMismatch,
  ServerClockRanBackwards.
\<close>

theorem getTime_reply_checks:
  assumes sent: "fst (getTime toNtpTime e rawFunc opt) = [req]"
  defines "rm \<equiv> decode (take 48 (fst (rawFunc req)))"
  defines "err \<equiv> snd (snd (snd (getTime toNtpTime e rawFunc opt)))"
  defines "received \<equiv> 48 \<le> length (fst (rawFunc req)) \<and> 0 \<le> sinceXmit e"
  shows "(err = None \<longrightarrow> getMode rm = server \<and> TransmitTime rm \<noteq> 0
            \<and> OriginTime rm = TransmitTime (decode req) \<and> ReceiveTime rm \<le> TransmitTime rm)
     \<and> (received \<and> getMode rm = server \<and> TransmitTime rm \<noteq> 0
            \<and> OriginTime rm = TransmitTime (decode req) \<and> ReceiveTime rm \<le> TransmitTime rm
          \<longrightarrow> err = None)
     \<and> (received \<and> getMode rm \<noteq> server \<longrightarrow> err = Some UnexpectedMode)
     \<and> (received \<and> getMode rm = server \<and> TransmitTime rm = 0 \<longrightarrow> err = Some InvalidTransmitTime)
     \<and> (received \<and> getMode rm = server \<and> TransmitTime rm \<noteq> 0
            \<and> OriginTime rm \<noteq> TransmitTime (decode req) \<longrightarrow> err = Some OriginMismatch)
     \<and> (received \<and> getMode rm = server \<and> TransmitTime rm \<noteq> 0
            \<and> OriginTime rm = TransmitTime (decode req) \<and> ReceiveTime rm > TransmitTime rm
          \<longrightarrow> err = Some ServerClockRanBackwards)"
proof -
  define v where "v = (if Version opt = 0 then defaultNtpVersion else Version opt)"
  from getTime_called [OF sent] have r: "2 \<le> v" "v \<le> 4"
    and req: "req = encode ((setLeap (setVersion (setMode new_msg client) v) LeapNotInSync)
      \<lparr>TransmitTime := (if randErr e = None then Uint64 (fst (randRead e)) else toNtpTime (nowXmit e))\<rparr>)"
    unfolding v_def by simp_all
  show ?thesis
    unfolding err_def rm_def received_def getTime_valid [OF v_def r, of toNtpTime e rawFunc]
    unfolding req [symmetric]
    by (auto simp add: req)
qed

theorem getTime_reply_checks_witness:
  "snd (snd (snd (getTime (\<lambda>t. 7) \<lparr>randBytes = [], randErr = Some EOF, nowXmit = 0, sinceXmit = 0, nowRet = 0\<rparr>
      (\<lambda>data. (encode (new_msg\<lparr>LiVnMode := 0x24, OriginTime := 9, ReceiveTime := 1, TransmitTime := 2\<rparr>), None))
      \<lparr>Version = 4\<rparr>))) = Some OriginMismatch
   \<and> snd (snd (snd (getTime (\<lambda>t. 7) \<lparr>randBytes = [], randErr = Some EOF, nowXmit = 0, sinceXmit = 0, nowRet = 0\<rparr>
      (\<lambda>data. (encode (new_msg\<lparr>LiVnMode := 0x24, OriginTime := 7, ReceiveTime := 1, TransmitTime := 2\<rparr>), None))
      \<lparr>Version = 4\<rparr>))) = None"
proof -
  let ?e = "\<lparr>randBytes = [], randErr = Some EOF, nowXmit = 0, sinceXmit = 0, nowRet = 0\<rparr>"
  let ?req = "encode ((setLeap (setVersion (setMode new_msg client) 4) LeapNotInSync)\<lparr>TransmitTime := 7\<rparr>)"
  have v: "(4::int) = (if Version \<lparr>Version = 4\<rparr> = 0 then defaultNtpVersion else Version \<lparr>Version = 4\<rparr>)"
    by simp
  have sent: "fst (getTime (\<lambda>t. 7) ?e rawFunc \<lparr>Version = 4\<rparr>) = [?req]" for rawFunc
    by (simp add: getTime_valid [OF v])
  show ?thesis
    using getTime_reply_checks [OF sent [of "\<lambda>data. (encode (new_msg\<lparr>LiVnMode := 0x24, OriginTime := 9, ReceiveTime := 1, TransmitTime := 2\<rparr>), None)"]]
      getTime_reply_checks [OF sent [of "\<lambda>data. (encode (new_msg\<lparr>LiVnMode := 0x24, OriginTime := 7, ReceiveTime := 1, TransmitTime := 2\<rparr>), None)"]]
    by (simp add: getMode_def server_def new_msg_def)
qed

subsection \<open>The local delta\<close>

text \<open>
  Claim C4: with a negative delta between send and receive \<open>getTime\<close> fails, and once
  a reply of 48 bytes or more has arrived the error is ClockRanBackwards; on success the
  delta is not negative and the receive timestamp returned with the reply is
  \<open>toNtpTime (xmitTime + delta)\<close>.
\<close>

theorem getTime_local_delta:
  "(sinceXmit e < 0 \<longrightarrow> snd (snd (snd (getTime toNtpTime e rawFunc opt))) \<noteq> None)
   \<and> (sinceXmit e < 0 \<and> fst (getTime toNtpTime e rawFunc opt) = [req]
        \<and> 48 \<le> length (fst (rawFunc req))
      \<longrightarrow> snd (getTime toNtpTime e rawFunc opt) = (None, 0, Some ClockRanBackwards))
   \<and> (snd (getTime toNtpTime e rawFunc opt) = (Some m, t, None)
      \<longrightarrow> 0 \<le> sinceXmit e \<and> t = toNtpTime (nowXmit e + sinceXmit e))"
proof -
  define v where "v = (if Version opt = 0 then defaultNtpVersion else Version opt)"
  show ?thesis
  proof (cases "v < 2 \<or> v > 4")
    case True
    from getTime_bad_version [OF v_def True, of toNtpTime e rawFunc]
    show ?thesis by simp
  next
    case False
    then have r: "2 \<le> v" "v \<le> 4" by auto
    show ?thesis
      unfolding getTime_valid [OF v_def r, of toNtpTime e rawFunc]
      by (auto split: if_splits)
  qed
qed

theorem getTime_local_delta_witness:
  "snd (getTime (\<lambda>t. if t = 3 then 11 else 7)
      \<lparr>randBytes = [], randErr = Some EOF, nowXmit = 1, sinceXmit = - 1, nowRet = 0\<rparr>
      (\<lambda>data. (encode (new_msg\<lparr>LiVnMode := 0x24, OriginTime := 7, ReceiveTime := 1, TransmitTime := 2\<rparr>), None))
      \<lparr>Version = 4\<rparr>) = (None, 0, Some ClockRanBackwards)
   \<and> fst (snd (snd (getTime (\<lambda>t. if t = 3 then 11 else 7)
      \<lparr>randBytes = [], randErr = Some EOF, nowXmit = 1, sinceXmit = 2, nowRet = 0\<rparr>
      (\<lambda>data. (encode (new_msg\<lparr>LiVnMode := 0x24, OriginTime := 7, ReceiveTime := 1, TransmitTime := 2\<rparr>), None))
      \<lparr>Version = 4\<rparr>))) = 11"
proof -
  let ?f = "\<lambda>t::rat. if t = 3 then 11 else (7::64 word)"
  let ?e = "\<lambda>d. \<lparr>randBytes = [], randErr = Some EOF, nowXmit = 1, sinceXmit = d, nowRet = 0\<rparr>"
  let ?reply = "new_msg\<lparr>LiVnMode := 0x24, OriginTime := 7, ReceiveTime := 1, TransmitTime := 2\<rparr>"
  let ?req = "encode ((setLeap (setVersion (setMode new_msg client) 4) LeapNotInSync)\<lparr>TransmitTime := 7\<rparr>)"
  have v: "(4::int) = (if Version \<lparr>Version = 4\<rparr> = 0 then defaultNtpVersion else Version \<lparr>Version = 4\<rparr>)"
    by simp
  have sent: "fst (getTime ?f (?e d) (\<lambda>data. (encode ?reply, None)) \<lparr>Version = 4\<rparr>) = [?req]" for d
    by (simp add: getTime_valid [OF v])
  have ok: "snd (getTime ?f (?e 2) (\<lambda>data. (encode ?reply, None)) \<lparr>Version = 4\<rparr>)
      = (Some (?reply\<lparr>OriginTime := 7\<rparr>), 11, None)"
    by (simp add: getTime_valid [OF v] getMode_def server_def new_msg_def)
  show ?thesis
    using getTime_local_delta [of "?e (- 1)" ?f "\<lambda>data. (encode ?reply, None)" "\<lparr>Version = 4\<rparr>" ?req]
      sent [of "- 1"]
      getTime_local_delta [of "?e 2" ?f "\<lambda>data. (encode ?reply, None)" "\<lparr>Version = 4\<rparr>" ?req
        "?reply\<lparr>OriginTime := 7\<rparr>" 11] ok
    by simp
qed

subsection \<open>The corrected origin time\<close>

text \<open>
  Claim C5: on success the returned message is the decoded reply with \<open>OriginTime\<close>
  overwritten by \<open>toNtpTime xmitTime\<close>; every other field is the reply's, and this is
  the message \<open>QueryWithOptions\<close> passes to \<open>parseTime\<close>.
\<close>

theorem getTime_origin_corrected:
  assumes "getTime toNtpTime e rawFunc opt = (calls, Some m, t, err)"
  shows "\<exists>req rm. calls = [req] \<and> err = None \<and> rm = decode (take 48 (fst (rawFunc req)))
     \<and> OriginTime m = toNtpTime (nowXmit e)
     \<and> LiVnMode m = LiVnMode rm \<and> getLeap m = getLeap rm \<and> Stratum m = Stratum rm
     \<and> Poll m = Poll rm \<and> Precision m = Precision rm
     \<and> RootDelay m = RootDelay rm \<and> RootDispersion m = RootDispersion rm
     \<and> ReferenceID m = ReferenceID rm \<and> ReferenceTime m = ReferenceTime rm
     \<and> ReceiveTime m = ReceiveTime rm \<and> TransmitTime m = TransmitTime rm
     \<and> m = rm\<lparr>OriginTime := toNtpTime (nowXmit e)\<rparr>
     \<and> snd (QueryWithOptions toNtpTime e rawFunc opt) = Return (Some (parseTime m t), None)"
proof -
  define v where "v = (if Version opt = 0 then defaultNtpVersion else Version opt)"
  show ?thesis
  proof (cases "v < 2 \<or> v > 4")
    case True
    from getTime_bad_version [OF v_def True, of toNtpTime e rawFunc] assms
    show ?thesis by simp
  next
    case False
    then have r: "2 \<le> v" "v \<le> 4" by auto
    from assms have q: "snd (QueryWithOptions toNtpTime e rawFunc opt) = Return (Some (parseTime m t), err)"
      "err = None"
      using getTime_shape [OF assms] by (auto simp add: QueryWithOptions_def)
    from getTime_valid [OF v_def r, of toNtpTime e rawFunc] assms q
    show ?thesis by (auto simp add: getLeap_def split: if_splits)
  qed
qed

theorem getTime_origin_corrected_witness:
  "getTime (\<lambda>t. if t = 1 then 11 else 5)
      \<lparr>randBytes = [0, 0, 0, 0, 0, 0, 0, 7], randErr = None, nowXmit = 1, sinceXmit = 2, nowRet = 0\<rparr>
      (\<lambda>data. (encode (new_msg\<lparr>LiVnMode := 0x24, Stratum := 2, OriginTime := 7, ReceiveTime := 1, TransmitTime := 2\<rparr>), None))
      \<lparr>Version = 4\<rparr>
    = ([encode ((setLeap (setVersion (setMode new_msg client) 4) LeapNotInSync)\<lparr>TransmitTime := 7\<rparr>)],
       Some (new_msg\<lparr>LiVnMode := 0x24, Stratum := 2, OriginTime := 11, ReceiveTime := 1, TransmitTime := 2\<rparr>),
       5, None)
   \<and> OriginTime (new_msg\<lparr>LiVnMode := 0x24, Stratum := 2, OriginTime := 11, ReceiveTime := 1, TransmitTime := 2\<rparr>) = 11
   \<and> Stratum (new_msg\<lparr>LiVnMode := 0x24, Stratum := 2, OriginTime := 11, ReceiveTime := 1, TransmitTime := 2\<rparr>)
       = Stratum (decode (take 48 (encode (new_msg\<lparr>LiVnMode := 0x24, Stratum := 2, OriginTime := 7, ReceiveTime := 1, TransmitTime := 2\<rparr>))))"
proof -
  let ?f = "\<lambda>t::rat. if t = 1 then 11 else (5::64 word)"
  let ?e = "\<lparr>randBytes = [0, 0, 0, 0, 0, 0, 0, 7], randErr = None, nowXmit = 1, sinceXmit = 2, nowRet = 0\<rparr>"
  let ?reply = "new_msg\<lparr>LiVnMode := 0x24, Stratum := 2, OriginTime := 7, ReceiveTime := 1, TransmitTime := 2\<rparr>"
  have v: "(4::int) = (if Version \<lparr>Version = 4\<rparr> = 0 then defaultNtpVersion else Version \<lparr>Version = 4\<rparr>)"
    by simp
  have u: "Uint64 [0, 0, 0, 0, 0, 0, 0, 7] = 7"
    by (simp add: Uint64_def)
  have ok: "getTime ?f ?e (\<lambda>data. (encode ?reply, None)) \<lparr>Version = 4\<rparr>
    = ([encode ((setLeap (setVersion (setMode new_msg client) 4) LeapNotInSync)\<lparr>TransmitTime := 7\<rparr>)],
       Some (new_msg\<lparr>LiVnMode := 0x24, Stratum := 2, OriginTime := 11, ReceiveTime := 1, TransmitTime := 2\<rparr>),
       5, None)"
    by (simp add: getTime_valid [OF v] randRead_full u getMode_def server_def new_msg_def)
  show ?thesis
    using getTime_origin_corrected [OF ok] ok by simp
qed

subsection \<open>What accompanies an error\<close>

text \<open>
  Claim C9: next to an error \<open>getTime\<close> returns a nil message and a zero timestamp, and
  \<open>QueryWithOptions\<close> returns a nil \<open>Response\<close> with that error; it never returns a
  \<open>Response\<close> together with an error, and it never dereferences a nil message.
\<close>

theorem getTime_error_returns_nil:
  assumes "getTime toNtpTime e rawFunc opt = (calls, m, t, err)"
  shows "(err \<noteq> None \<longrightarrow> m = None \<and> t = 0
            \<and> QueryWithOptions toNtpTime e rawFunc opt = (calls, Return (None, err)))
     \<and> (\<forall>r er. snd (QueryWithOptions toNtpTime e rawFunc opt) = Return (r, er) \<and> er \<noteq> None \<longrightarrow> r = None)
     \<and> snd (QueryWithOptions toNtpTime e rawFunc opt) \<noteq> Panic"
  using getTime_shape [OF assms] assms
  by (auto simp add: QueryWithOptions_def split: option.splits)

theorem getTime_error_returns_nil_witness:
  "getTime (\<lambda>t. 0) \<lparr>randBytes = [], randErr = None, nowXmit = 0, sinceXmit = 0, nowRet = 0\<rparr>
      (\<lambda>data. ([], Some (NetError ''i/o timeout''))) \<lparr>Version = 4\<rparr>
    = ([encode ((setLeap (setVersion (setMode new_msg client) 4) LeapNotInSync)
          \<lparr>TransmitTime := Uint64 (replicate 8 0)\<rparr>)], None, 0, Some EOF)
   \<and> QueryWithOptions (\<lambda>t. 0) \<lparr>randBytes = [], randErr = None, nowXmit = 0, sinceXmit = 0, nowRet = 0\<rparr>
      (\<lambda>data. ([], Some (NetError ''i/o timeout''))) \<lparr>Version = 4\<rparr>
    = ([encode ((setLeap (setVersion (setMode new_msg client) 4) LeapNotInSync)
          \<lparr>TransmitTime := Uint64 (replicate 8 0)\<rparr>)], Return (None, Some EOF))"
proof -
  let ?e = "\<lparr>randBytes = [], randErr = None, nowXmit = 0, sinceXmit = 0, nowRet = 0\<rparr>"
  have v: "(4::int) = (if Version \<lparr>Version = 4\<rparr> = 0 then defaultNtpVersion else Version \<lparr>Version = 4\<rparr>)"
    by simp
  have ev: "getTime (\<lambda>t. 0) ?e (\<lambda>data. ([], Some (NetError ''i/o timeout''))) \<lparr>Version = 4\<rparr>
    = ([encode ((setLeap (setVersion (setMode new_msg client) 4) LeapNotInSync)
          \<lparr>TransmitTime := Uint64 (replicate 8 0)\<rparr>)], None, 0, Some EOF)"
    by (simp add: getTime_valid [OF v] randRead_def copy_def)
  show ?thesis
    using getTime_error_returns_nil [OF ev] ev by simp
qed

subsection \<open>The TransmitTime of the request\<close>

text \<open>
  Claim C6: when \<open>rand.Read\<close> succeeds, the TransmitTime of the request handed to the
  transport is the big-endian value of the 8 bytes in the random buffer (and bytes
  40 to 47 of the request are those bytes); when it fails, the TransmitTime is
  \<open>toNtpTime\<close> of the clock reading \<open>xmitTime\<close>. In both cases \<open>xmitTime\<close> is kept
  apart from the packet's value: on success the corrected OriginTime and the receive
  timestamp are computed from \<open>xmitTime\<close>.
\<close>

theorem getTime_request_TransmitTime:
  assumes "fst (getTime toNtpTime e rawFunc opt) = [req]"
  shows "(randErr e = None \<longrightarrow> TransmitTime (decode req) = Uint64 (fst (randRead e)))
     \<and> (randErr e = None \<and> length (randBytes e) = 8 \<longrightarrow>
          TransmitTime (decode req) = Uint64 (randBytes e) \<and> drop 40 req = randBytes e)
     \<and> (randErr e \<noteq> None \<longrightarrow> TransmitTime (decode req) = toNtpTime (nowXmit e))
     \<and> (\<forall>m t. snd (getTime toNtpTime e rawFunc opt) = (Some m, t, None) \<longrightarrow>
          OriginTime m = toNtpTime (nowXmit e) \<and> t = toNtpTime (nowXmit e + sinceXmit e))"
proof -
  define v where "v = (if Version opt = 0 then defaultNtpVersion else Version opt)"
  from getTime_called [OF assms] have r: "2 \<le> v" "v \<le> 4"
    and req: "req = encode ((setLeap (setVersion (setMode new_msg client) v) LeapNotInSync)
      \<lparr>TransmitTime := (if randErr e = None then Uint64 (fst (randRead e)) else toNtpTime (nowXmit e))\<rparr>)"
    unfolding v_def by simp_all
  have a: "randErr e = None \<longrightarrow> TransmitTime (decode req) = Uint64 (fst (randRead e))"
    and c: "randErr e \<noteq> None \<longrightarrow> TransmitTime (decode req) = toNtpTime (nowXmit e)"
    by (simp_all add: req)
  have b: "randErr e = None \<and> length (randBytes e) = 8 \<longrightarrow>
          TransmitTime (decode req) = Uint64 (randBytes e) \<and> drop 40 req = randBytes e"
    by (simp add: req drop_40_encode randRead_full PutUint64_Uint64_length)
  have d: "\<forall>m t. snd (getTime toNtpTime e rawFunc opt) = (Some m, t, None) \<longrightarrow>
          OriginTime m = toNtpTime (nowXmit e) \<and> t = toNtpTime (nowXmit e + sinceXmit e)"
    unfolding getTime_valid [OF v_def r, of toNtpTime e rawFunc]
    by (auto split: if_splits)
  from a b c d show ?thesis by blast
qed

theorem getTime_request_TransmitTime_witness:
  "drop 40 (encode ((setLeap (setVersion (setMode new_msg client) 4) LeapNotInSync)
      \<lparr>TransmitTime := Uint64 [1, 2, 3, 4, 5, 6, 7, 8]\<rparr>)) = [1, 2, 3, 4, 5, 6, 7, 8]
   \<and> TransmitTime (decode (encode ((setLeap (setVersion (setMode new_msg client) 4) LeapNotInSync)
      \<lparr>TransmitTime := 9\<rparr>))) = 9"
proof -
  let ?f = "\<lambda>t::rat. 9::64 word"
  let ?e = "\<lambda>err. \<lparr>randBytes = [1, 2, 3, 4, 5, 6, 7, 8], randErr = err, nowXmit = 1, sinceXmit = 2, nowRet = 0\<rparr>"
  have v: "(4::int) = (if Version \<lparr>Version = 4\<rparr> = 0 then defaultNtpVersion else Version \<lparr>Version = 4\<rparr>)"
    by simp
  have s1: "fst (getTime ?f (?e None) (\<lambda>data. ([], None)) \<lparr>Version = 4\<rparr>)
      = [encode ((setLeap (setVersion (setMode new_msg client) 4) LeapNotInSync)
          \<lparr>TransmitTime := Uint64 [1, 2, 3, 4, 5, 6, 7, 8]\<rparr>)]"
    by (simp add: getTime_valid [OF v] randRead_full)
  have s2: "fst (getTime ?f (?e (Some EOF)) (\<lambda>data. ([], None)) \<lparr>Version = 4\<rparr>)
      = [encode ((setLeap (setVersion (setMode new_msg client) 4) LeapNotInSync)
          \<lparr>TransmitTime := 9\<rparr>)]"
    by (simp add: getTime_valid [OF v])
  show ?thesis
    using getTime_request_TransmitTime [OF s1] getTime_request_TransmitTime [OF s2]
    by (simp add: randRead_full)
qed

subsection \<open>TimeV\<close>



subsection \<open>Offset and delay\<close>

text \<open>
  Claim C8, as stated, at t1 = 0, t2 = 1.0 s, t3 = 1.0 s, t4 = 2.0 s: the claim's formula
  RoundTripDelay = (t4 - t1) - (t3 - t2) gives 2.0 s there, not the 1.0 s the claim names.
\<close>

theorem parseTime_delay_example_counterexample:
  "RoundTripDelay (parseTime (new_msg\<lparr>OriginTime := 0, ReceiveTime := 2 ^ 32, TransmitTime := 2 ^ 32\<rparr>) (2 ^ 33)) \<noteq> 1"
  by (simp add: parseTime_def toTime_def new_msg_def)

text \<open>
  Claim C8, amended: for every t1 = OriginTime (corrected), t2 = ReceiveTime,
  t3 = TransmitTime and t4 = local receive timestamp, \<open>parseTime\<close> gives
  RoundTripDelay = (t4 - t1) - (t3 - t2) and ClockOffset = ((t2 - t1) + (t3 - t4)) / 2; for
  t1 = 0, t2 = 1.0 s, t3 = 1.0 s, t4 = 2.0 s the RoundTripDelay is exactly 2.0 s and the
  ClockOffset exactly 0.0 s.
\<close>

theorem parseTime_offset_delay:
  "RoundTripDelay (parseTime m t4)
      = (toTime t4 - toTime (OriginTime m)) - (toTime (TransmitTime m) - toTime (ReceiveTime m))
   \<and> ClockOffset (parseTime m t4)
      = ((toTime (ReceiveTime m) - toTime (OriginTime m)) + (toTime (TransmitTime m) - toTime t4)) / 2
   \<and> toTime 0 = 0 \<and> toTime (2 ^ 32) = 1 \<and> toTime (2 ^ 33) = 2
   \<and> RoundTripDelay (parseTime (m\<lparr>OriginTime := 0, ReceiveTime := 2 ^ 32, TransmitTime := 2 ^ 32\<rparr>) (2 ^ 33)) = 2
   \<and> ClockOffset (parseTime (m\<lparr>OriginTime := 0, ReceiveTime := 2 ^ 32, TransmitTime := 2 ^ 32\<rparr>) (2 ^ 33)) = 0"
proof -
  have t: "toTime 0 = 0" "toTime (2 ^ 32) = 1" "toTime (2 ^ 33) = 2"
    by (simp_all add: toTime_def)
  have "RoundTripDelay (parseTime (m\<lparr>OriginTime := 0, ReceiveTime := 2 ^ 32, TransmitTime := 2 ^ 32\<rparr>) (2 ^ 33))
      = (toTime (2 ^ 33) - toTime 0) - (toTime (2 ^ 32) - toTime (2 ^ 32))"
    "ClockOffset (parseTime (m\<lparr>OriginTime := 0, ReceiveTime := 2 ^ 32, TransmitTime := 2 ^ 32\<rparr>) (2 ^ 33))
      = ((toTime (2 ^ 32) - toTime 0) + (toTime (2 ^ 32) - toTime (2 ^ 33))) / 2"
    by (simp_all add: parseTime_def Let_def)
  then have "RoundTripDelay (parseTime (m\<lparr>OriginTime := 0, ReceiveTime := 2 ^ 32, TransmitTime := 2 ^ 32\<rparr>) (2 ^ 33)) = 2"
    "ClockOffset (parseTime (m\<lparr>OriginTime := 0, ReceiveTime := 2 ^ 32, TransmitTime := 2 ^ 32\<rparr>) (2 ^ 33)) = 0"
    unfolding t by simp_all
  moreover have "RoundTripDelay (parseTime m t4)
      = (toTime t4 - toTime (OriginTime m)) - (toTime (TransmitTime m) - toTime (ReceiveTime m))"
    "ClockOffset (parseTime m t4)
      = ((toTime (ReceiveTime m) - toTime (OriginTime m)) + (toTime (TransmitTime m) - toTime t4)) / 2"
    by (simp_all add: parseTime_def Let_def)
  ultimately show ?thesis using t by (intro conjI)
qed

subsection \<open>The default transport\<close>

text \<open>A buffer of zeros after \<open>copy\<close>: the bytes that fit, then the zeros that were not overwritten.\<close>

lemma copy_zeros: "copy (replicate n 0) got = take n got @ replicate (n - length got) 0"
  by (simp add: copy_def)

text \<open>When every call into the network succeeds up to the read, the handler returns the read's error or the buffer.\<close>

lemma MakeDefaultHandler_steps:
  assumes "ResolveUDPAddr net (if Protocol = [] then ''udp'' else Protocol)
             (JoinHostPort Host (if Port = [] then ''123'' else Port)) = Inr raddr"
    and "(if LocalAddress \<noteq> []
          then map_sum id Some (ResolveUDPAddr net (if Protocol = [] then ''udp'' else Protocol)
                 (JoinHostPort LocalAddress ''0''))
          else Inr None) = Inr laddr"
    and "DialUDP net (if Protocol = [] then ''udp'' else Protocol) laddr raddr = Inr con"
    and "(if TTL \<noteq> 0 then SetTTL net con TTL else None) = None"
    and "connWrite net con data = None"
    and "connRead net con (if Timeout = 0 then 5 else Timeout) data = (got, err)"
  shows "MakeDefaultHandler net Host Protocol Port LocalAddress TTL Timeout data
      = (if err \<noteq> None then ([], err)
         else (take (length data) got @ replicate (length data - length got) 0, None))"
  unfolding MakeDefaultHandler_def Let_def assms sum.case option.case prod.case copy_zeros
  by (rule refl)

text \<open>The handler returns no error only when every call into the network returned none.\<close>

lemma MakeDefaultHandler_success:
  assumes "MakeDefaultHandler net Host Protocol Port LocalAddress TTL Timeout data = (buf, None)"
  shows "\<exists>raddr laddr con got.
      ResolveUDPAddr net (if Protocol = [] then ''udp'' else Protocol)
             (JoinHostPort Host (if Port = [] then ''123'' else Port)) = Inr raddr
    \<and> (if LocalAddress \<noteq> []
          then map_sum id Some (ResolveUDPAddr net (if Protocol = [] then ''udp'' else Protocol)
                 (JoinHostPort LocalAddress ''0''))
          else Inr None) = Inr laddr
    \<and> DialUDP net (if Protocol = [] then ''udp'' else Protocol) laddr raddr = Inr con
    \<and> (if TTL \<noteq> 0 then SetTTL net con TTL else None) = None
    \<and> connWrite net con data = None
    \<and> connRead net con (if Timeout = 0 then 5 else Timeout) data = (got, None)"
proof -
  let ?proto = "if Protocol = [] then ''udp'' else Protocol"
  let ?R = "ResolveUDPAddr net ?proto (JoinHostPort Host (if Port = [] then ''123'' else Port))"
  let ?L = "if LocalAddress \<noteq> []
          then map_sum id Some (ResolveUDPAddr net ?proto (JoinHostPort LocalAddress ''0''))
          else Inr None"
  note a = assms [unfolded MakeDefaultHandler_def Let_def]
  obtain raddr where r: "?R = Inr raddr"
    using a by (cases ?R) simp_all
  note a = a [unfolded r sum.case]
  obtain laddr where l: "?L = Inr laddr"
    using a by (cases ?L) simp_all
  note a = a [unfolded l sum.case]
  obtain con where d: "DialUDP net ?proto laddr raddr = Inr con"
    using a by (cases "DialUDP net ?proto laddr raddr") simp_all
  note a = a [unfolded d sum.case]
  have t: "(if TTL \<noteq> 0 then SetTTL net con TTL else None) = None"
    using a by (cases "if TTL \<noteq> 0 then SetTTL net con TTL else None") simp_all
  note a = a [unfolded t option.case]
  have w: "connWrite net con data = None"
    using a by (cases "connWrite net con data") simp_all
  note a = a [unfolded w option.case]
  obtain got err where g: "connRead net con (if Timeout = 0 then 5 else Timeout) data = (got, err)"
    by (cases "connRead net con (if Timeout = 0 then 5 else Timeout) data")
  have "err = None"
    using a unfolding g prod.case by (cases err) simp_all
  with r l d t w g show ?thesis by blast
qed

text \<open>
  Claim C10: when the transport built by \<open>MakeDefaultHandler\<close> succeeds, the buffer it
  returns has the length of the request, whatever the read delivered: it holds the
  bytes of the datagram that fit, followed by the zeros the buffer was made with. The
  count returned by the read plays no part, so the same exchange with any other datagram
  (a shorter one too) succeeds as well and is not reported as an error.
\<close>

theorem MakeDefaultHandler_read_count_ignored:
  assumes "MakeDefaultHandler net Host Protocol Port LocalAddress TTL Timeout data = (buf, None)"
  shows "length buf = length data
     \<and> (\<exists>con tmo got. connRead net con tmo data = (got, None)
           \<and> buf = take (length data) got @ replicate (length data - length got) 0)
     \<and> (\<forall>got'. MakeDefaultHandler (net\<lparr>connRead := \<lambda>con tmo sent. (got', None)\<rparr>)
             Host Protocol Port LocalAddress TTL Timeout data
           = (take (length data) got' @ replicate (length data - length got') 0, None))"
proof -
  from MakeDefaultHandler_success [OF assms] obtain raddr laddr con got where
    r: "ResolveUDPAddr net (if Protocol = [] then ''udp'' else Protocol)
             (JoinHostPort Host (if Port = [] then ''123'' else Port)) = Inr raddr"
    and l: "(if LocalAddress \<noteq> []
          then map_sum id Some (ResolveUDPAddr net (if Protocol = [] then ''udp'' else Protocol)
                 (JoinHostPort LocalAddress ''0''))
          else Inr None) = Inr laddr"
    and d: "DialUDP net (if Protocol = [] then ''udp'' else Protocol) laddr raddr = Inr con"
    and t: "(if TTL \<noteq> 0 then SetTTL net con TTL else None) = None"
    and w: "connWrite net con data = None"
    and g: "connRead net con (if Timeout = 0 then 5 else Timeout) data = (got, None)"
    by blast
  from MakeDefaultHandler_steps [OF r l d t w g] assms
  have buf: "buf = take (length data) got @ replicate (length data - length got) 0"
    by simp
  have len: "length buf = length data"
    unfolding buf by simp
  have other: "MakeDefaultHandler (net\<lparr>connRead := \<lambda>con tmo sent. (got', None)\<rparr>)
             Host Protocol Port LocalAddress TTL Timeout data
           = (take (length data) got' @ replicate (length data - length got') 0, None)" for got'
  proof -
    let ?net = "net\<lparr>connRead := \<lambda>con tmo sent. (got', None)\<rparr>"
    have r': "ResolveUDPAddr ?net (if Protocol = [] then ''udp'' else Protocol)
             (JoinHostPort Host (if Port = [] then ''123'' else Port)) = Inr raddr"
      using r by simp
    have l': "(if LocalAddress \<noteq> []
          then map_sum id Some (ResolveUDPAddr ?net (if Protocol = [] then ''udp'' else Protocol)
                 (JoinHostPort LocalAddress ''0''))
          else Inr None) = Inr laddr"
      using l by (simp cong: if_cong)
    have d': "DialUDP ?net (if Protocol = [] then ''udp'' else Protocol) laddr raddr = Inr con"
      using d by simp
    have t': "(if TTL \<noteq> 0 then SetTTL ?net con TTL else None) = None"
      using t by (simp cong: if_cong)
    have w': "connWrite ?net con data = None"
      using w by simp
    have g': "connRead ?net con (if Timeout = 0 then 5 else Timeout) data = (got', None)"
      by simp
    from MakeDefaultHandler_steps [OF r' l' d' t' w' g'] show ?thesis
      by simp
  qed
  from len buf g other show ?thesis by blast
qed

theorem MakeDefaultHandler_read_count_ignored_witness:
  "MakeDefaultHandler
      \<lparr>ResolveUDPAddr = \<lambda>proto addr. Inr addr, DialUDP = \<lambda>proto laddr raddr. Inr 0,
       SetTTL = \<lambda>con ttl. None, connWrite = \<lambda>con sent. None,
       connRead = \<lambda>con tmo sent. ([1, 2, 3], None)\<rparr>
      ''pool.ntp.org'' [] [] [] 0 0 [0x23, 0, 0, 0, 0, 0] = ([1, 2, 3, 0, 0, 0], None)
   \<and> length [1, 2, 3, 0, 0, 0 :: byte] = length [0x23, 0, 0, 0, 0, 0 :: byte]"
proof -
  let ?net = "\<lparr>ResolveUDPAddr = \<lambda>proto addr. Inr addr, DialUDP = \<lambda>proto laddr raddr. Inr 0,
       SetTTL = \<lambda>con ttl. None, connWrite = \<lambda>con sent. None,
       connRead = \<lambda>con tmo sent. ([1, 2, 3 :: byte], None)\<rparr>"
  have ev: "MakeDefaultHandler ?net ''pool.ntp.org'' [] [] [] 0 0 [0x23, 0, 0, 0, 0, 0]
      = ([1, 2, 3, 0, 0, 0], None)"
    by (simp add: MakeDefaultHandler_def copy_def)
  show ?thesis
    using MakeDefaultHandler_read_count_ignored [OF ev] ev by simp
qed

end
